theory Spec2Isabelle
  imports Main "HOL-Library.Sublist"
begin

section \<open>Strings and the Python runtime\<close>

text \<open>
  A Python \<open>str\<close> is a sequence of Unicode code points, so it is modelled as a list of
  natural numbers; \<open>length\<close> then counts what Python's \<open>len\<close> counts. The
  function \<open>str\<close> turns an ASCII literal into such a sequence; a character outside
  ASCII is written as its code point (the en dash is 8211, the right arrow 8594).
\<close>

type_synonym pystr = "nat list"

definition str :: "string \<Rightarrow> pystr" where
  "str s = map of_char s"

text \<open>Every exception class is an error value; \<open>OtherError\<close> stands for the rest.\<close>

datatype error =
    URLError | HTTPError nat | TimeoutError | ParseError | JSONDecodeError
  | ValueError | AttributeError | IndexError | KeyError | TypeError | OtherError

text \<open>
  An \<open>xml.etree.ElementTree.Element\<close>: its tag (a namespaced tag is
  \<open>{uri}local\<close>), its attributes, its text (\<open>None\<close> when there is none) and its
  children in document order.
\<close>

datatype xml = Element (tag: pystr) (attrib: "(pystr \<times> pystr) list") (el_text: "pystr option")
  (children: "xml list")

text \<open>
  A value returned by \<open>json.loads\<close>. An object is the parsed dict, kept as an
  association list that is read with \<^const>\<open>map_of\<close>; a number keeps its text, since the
  program never computes with it.
\<close>

datatype json =
    JNull | JBool bool | JNumber pystr | JString pystr | JArray "json list"
  | JObject "(pystr \<times> json) list"

text \<open>
  What the program takes from the Python library and from the outside world:
  \<^item> \<open>py_lower\<close> is \<open>str.lower\<close>, \<open>py_unescape\<close> is \<open>html.unescape\<close>,
    \<open>py_isdecimal\<close> holds of the characters that \<open>\d\<close> matches, \<open>py_format\<close> is
    what an f-string prints for a JSON value that is not a string;
  \<^item> \<open>urlopen url timeout\<close> is the outcome of building the request, opening it and
    reading the body: the raw body, or the exception raised (malformed URL, connection
    error, timeout, HTTP error status). Every URL is requested at most once in a run;
  \<^item> \<open>ET_fromstring\<close> and \<open>json_loads\<close> parse a raw body or raise;
  \<^item> \<open>now_strftime\<close> is \<open>datetime.now().strftime("%B %d, %Y")\<close>.
  \<open>print\<close> is taken to succeed and leaves no trace in the model.
\<close>

record runtime =
  py_lower :: "pystr \<Rightarrow> pystr"
  py_unescape :: "pystr \<Rightarrow> pystr"
  py_isdecimal :: "nat \<Rightarrow> bool"
  py_format :: "json \<Rightarrow> pystr"
  urlopen :: "pystr \<Rightarrow> int \<Rightarrow> error + pystr"
  ET_fromstring :: "pystr \<Rightarrow> error + xml"
  json_loads :: "pystr \<Rightarrow> error + json"
  now_strftime :: pystr

text \<open>Sequencing of steps that may raise: the first exception ends the \<open>try\<close> body.\<close>

definition and_then :: "error + 'a \<Rightarrow> ('a \<Rightarrow> error + 'b) \<Rightarrow> error + 'b" where
  "and_then r f = (case r of Inl e \<Rightarrow> Inl e | Inr x \<Rightarrow> f x)"

text \<open>
  \<open>xs[:n]\<close> for a Python integer \<open>n\<close>: the first \<open>n\<close> elements when \<open>n\<close> is
  not negative, all but the last \<open>-n\<close> elements otherwise.
\<close>

definition slice_to :: "int \<Rightarrow> 'a list \<Rightarrow> 'a list" where
  "slice_to n xs = (if 0 \<le> n then take (nat n) xs else take (length xs - nat (- n)) xs)"

text \<open>\<open>for x in xs: items.append(f(x))\<close>, started with the list \<open>items\<close>.\<close>

fun for_append :: "('a \<Rightarrow> 'b) \<Rightarrow> 'a list \<Rightarrow> 'b list \<Rightarrow> 'b list" where
  "for_append f [] items = items"
| "for_append f (x # xs) items = for_append f xs (items @ [f x])"

section \<open>Configuration\<close>

record feed =
  name :: pystr
  url :: pystr

definition RSS_FEEDS_raleigh_news :: "feed list" where
  "RSS_FEEDS_raleigh_news =
     [\<lparr>name = str ''WRAL '' @ [8211] @ str '' Local News'',
       url = str ''https://www.wral.com/rss/1148/''\<rparr>,
      \<lparr>name = str ''News & Observer '' @ [8211] @ str '' Real Estate'',
       url = str ''https://www.newsobserver.com/news/business/real-estate-news/?outputType=atom''\<rparr>,
      \<lparr>name = str ''Triangle Business Journal'',
       url = str ''https://www.bizjournals.com/triangle/rssfeed/breaking_news/''\<rparr>]"

definition RSS_FEEDS_construction_news :: "feed list" where
  "RSS_FEEDS_construction_news =
     [\<lparr>name = str ''Construction Dive'',
       url = str ''https://www.constructiondive.com/feeds/news/''\<rparr>,
      \<lparr>name = str ''Builder Online'',
       url = str ''https://www.builderonline.com/rss''\<rparr>,
      \<lparr>name = str ''NAHB Now'',
       url = str ''https://nahbnow.com/feed/''\<rparr>]"

definition RSS_FEEDS_materials_news :: "feed list" where
  "RSS_FEEDS_materials_news =
     [\<lparr>name = str ''AGC '' @ [8211] @ str '' Construction Industry News'',
       url = str ''https://www.agc.org/news/rss''\<rparr>,
      \<lparr>name = str ''Probuilder '' @ [8211] @ str '' Industry'',
       url = str ''https://www.probuilder.com/rss.xml''\<rparr>]"

definition RALEIGH_KEYWORDS :: "pystr list" where
  "RALEIGH_KEYWORDS = map str
     [''raleigh'', ''durham'', ''chapel hill'', ''wake county'', ''triangle'',
      ''cary'', ''apex'', ''morrisville'', ''holly springs'', ''fuquay'',
      ''downtown'', ''north carolina'', ''nc '', '' nc,'']"

definition MORTGAGE_KEYWORDS :: "pystr list" where
  "MORTGAGE_KEYWORDS = map str
     [''mortgage'', ''30-year'', ''interest rate'', ''fed'', ''federal reserve'',
      ''housing market'', ''home price'', ''refinance'']"

definition MATERIAL_KEYWORDS :: "pystr list" where
  "MATERIAL_KEYWORDS = map str
     [''lumber'', ''wood'', ''steel'', ''concrete'', ''copper'', ''material'',
      ''supply chain'', ''tariff'', ''price increase'', ''construction cost'',
      ''framing'', ''drywall'', ''roofing'', ''insulation'']"

section \<open>Fetching and normalising a feed\<close>

text \<open>
  An article is the dict built by \<open>fetch_rss\<close> (keys \<open>title\<close>, \<open>link\<close>, \<open>desc\<close>,
  \<open>date\<close>); \<open>gather_news\<close> later stores the key \<open>source\<close>, which is absent
  (\<open>None\<close>) until then.
\<close>

record article =
  title :: pystr
  link :: pystr
  desc :: pystr
  date :: pystr
  source :: "pystr option"

text \<open>The characters that \<open>str.strip()\<close> removes (those with \<open>str.isspace\<close>).\<close>

definition isspace :: "nat \<Rightarrow> bool" where
  "isspace c \<longleftrightarrow>
     (9 \<le> c \<and> c \<le> 13) \<or> (28 \<le> c \<and> c \<le> 32) \<or> c = 133 \<or> c = 160 \<or> c = 5760 \<or>
     (8192 \<le> c \<and> c \<le> 8202) \<or> c = 8232 \<or> c = 8233 \<or> c = 8239 \<or> c = 8287 \<or> c = 12288"

definition strip :: "pystr \<Rightarrow> pystr" where
  "strip s = rev (dropWhile isspace (rev (dropWhile isspace s)))"

text \<open>
  \<open>re.sub(r"<[^>]+>", "", s)\<close>. Code point 60 is \<open><\<close> and 62 is \<open>>\<close>. At a
  \<open><\<close> the greedy class takes the longest run of characters other than \<open>>\<close>; the
  pattern matches there exactly when that run is not empty and a \<open>>\<close> follows it (a
  shorter run is followed by a character of the run, never by \<open>>\<close>). A match is
  dropped and the scan resumes behind it; otherwise the character is kept.
\<close>

function strip_tags :: "pystr \<Rightarrow> pystr" where
  "strip_tags [] = []"
| "strip_tags (c # cs) =
     (if c = 60 \<and> takeWhile (\<lambda>x. x \<noteq> 62) cs \<noteq> [] \<and> dropWhile (\<lambda>x. x \<noteq> 62) cs \<noteq> []
      then strip_tags (tl (dropWhile (\<lambda>x. x \<noteq> 62) cs))
      else c # strip_tags cs)"
  by pat_completeness auto
termination
proof (relation "measure length")
  show "wf (measure length)" by simp
next
  fix c :: nat and cs :: pystr
  have "length (tl (dropWhile (\<lambda>x. x \<noteq> 62) cs)) \<le> length (dropWhile (\<lambda>x. x \<noteq> 62) cs)"
    by simp
  also have "\<dots> \<le> length cs" by (rule length_dropWhile_le)
  finally show "(tl (dropWhile (\<lambda>x. x \<noteq> 62) cs), c # cs) \<in> measure length" by simp
next
  fix c :: nat and cs :: pystr
  show "(cs, c # cs) \<in> measure length" by simp
qed

text \<open>The summary of an article: tags removed, cut to 220 characters, stripped.\<close>

definition clean_desc :: "pystr \<Rightarrow> pystr" where
  "clean_desc d = strip (take 220 (strip_tags d))"

text \<open>
  A string holds a complete tag when the pattern \<open><[^>]+>\<close> matches somewhere in it:
  a \<open><\<close>, then a non-empty run of characters other than \<open>>\<close>, then a \<open>>\<close>.
\<close>

fun has_tag :: "pystr \<Rightarrow> bool" where
  "has_tag [] = False"
| "has_tag (c # cs) =
     ((c = 60 \<and> takeWhile (\<lambda>x. x \<noteq> 62) cs \<noteq> [] \<and> dropWhile (\<lambda>x. x \<noteq> 62) cs \<noteq> [])
      \<or> has_tag cs)"

text \<open>\<open>el.find(tag)\<close>: the first child with that tag.\<close>

definition find_child :: "pystr \<Rightarrow> xml \<Rightarrow> xml option" where
  "find_child tg el = List.find (\<lambda>c. tag c = tg) (children el)"

text \<open>\<open>root.findall(".//tag")\<close>: the proper descendants with that tag, in document order.\<close>

fun descendants :: "xml \<Rightarrow> xml list" where
  "descendants (Element tg at tx cs) = concat (map (\<lambda>c. c # descendants c) cs)"

definition findall_desc :: "pystr \<Rightarrow> xml \<Rightarrow> xml list" where
  "findall_desc tg root = filter (\<lambda>e. tag e = tg) (descendants root)"

text \<open>The local helpers \<open>get\<close> and \<open>getat\<close> of \<open>fetch_rss\<close>.\<close>

definition get :: "runtime \<Rightarrow> xml \<Rightarrow> pystr \<Rightarrow> pystr" where
  "get rt item tg =
     (case find_child tg item of
        None \<Rightarrow> []
      | Some el \<Rightarrow>
          (case el_text el of
             None \<Rightarrow> []
           | Some t \<Rightarrow> if t = [] then [] else py_unescape rt (strip t)))"

definition atom_tag :: "pystr \<Rightarrow> pystr" where
  "atom_tag tg = str ''{http://www.w3.org/2005/Atom}'' @ tg"

definition getat :: "runtime \<Rightarrow> xml \<Rightarrow> pystr \<Rightarrow> pystr" where
  "getat rt entry tg = get rt entry (atom_tag tg)"

definition rss_item :: "runtime \<Rightarrow> xml \<Rightarrow> article" where
  "rss_item rt item =
     (let d = get rt item (str ''description'');
          d = clean_desc d
      in \<lparr>title = get rt item (str ''title''),
          link = get rt item (str ''link''),
          desc = d,
          date = (if get rt item (str ''pubDate'') \<noteq> []
                  then take 16 (get rt item (str ''pubDate'')) else []),
          source = None\<rparr>)"

definition atom_item :: "runtime \<Rightarrow> xml \<Rightarrow> article" where
  "atom_item rt entry =
     (let link_el = find_child (atom_tag (str ''link'')) entry;
          lnk = (case link_el of
                   None \<Rightarrow> []
                 | Some el \<Rightarrow> (case map_of (attrib el) (str ''href'') of
                                None \<Rightarrow> [] | Some h \<Rightarrow> h));
          d = (if getat rt entry (str ''summary'') \<noteq> []
               then getat rt entry (str ''summary'') else getat rt entry (str ''content''));
          d = clean_desc d
      in \<lparr>title = getat rt entry (str ''title''),
          link = lnk,
          desc = d,
          date = (if getat rt entry (str ''updated'') \<noteq> []
                  then take 10 (getat rt entry (str ''updated'')) else []),
          source = None\<rparr>)"

text \<open>The two loops of \<open>fetch_rss\<close> over a parsed document.\<close>

definition rss_pass :: "runtime \<Rightarrow> xml \<Rightarrow> article list" where
  "rss_pass rt root = for_append (rss_item rt) (take 8 (findall_desc (str ''item'') root)) []"

definition atom_pass :: "runtime \<Rightarrow> xml \<Rightarrow> article list \<Rightarrow> article list" where
  "atom_pass rt root items =
     for_append (atom_item rt) (take 8 (findall_desc (atom_tag (str ''entry'')) root)) items"

definition parse_feed :: "runtime \<Rightarrow> xml \<Rightarrow> article list" where
  "parse_feed rt root =
     (let items = rss_pass rt root
      in if items = [] then atom_pass rt root items else items)"

text \<open>The body of the \<open>try\<close> block, and \<open>fetch_rss\<close> with its \<open>except Exception\<close>.\<close>

definition fetch_rss_try :: "runtime \<Rightarrow> pystr \<Rightarrow> int \<Rightarrow> error + article list" where
  "fetch_rss_try rt u timeout =
     and_then (urlopen rt u timeout) (\<lambda>raw.
     and_then (ET_fromstring rt raw) (\<lambda>root.
     Inr (parse_feed rt root)))"

definition fetch_rss :: "runtime \<Rightarrow> pystr \<Rightarrow> int \<Rightarrow> article list" where
  "fetch_rss rt u timeout =
     (case fetch_rss_try rt u timeout of Inl e \<Rightarrow> [] | Inr items \<Rightarrow> items)"

section \<open>The mortgage rate\<close>

text \<open>
  The rate record is a dict from field names to values. \<open>d.get(k, default)\<close> raises
  \<open>AttributeError\<close> on anything but a dict; \<open>v[-1]\<close> is the last element of a list
  or string, and raises on an empty one and on every other value.
\<close>

type_synonym rate_record = "pystr \<rightharpoonup> json"

definition dict_get :: "json \<Rightarrow> pystr \<Rightarrow> json \<Rightarrow> error + json" where
  "dict_get d k dflt =
     (case d of
        JObject kvs \<Rightarrow> Inr (case map_of kvs k of None \<Rightarrow> dflt | Some v \<Rightarrow> v)
      | _ \<Rightarrow> Inl AttributeError)"

definition index_last :: "json \<Rightarrow> error + json" where
  "index_last v =
     (case v of
        JArray xs \<Rightarrow> if xs = [] then Inl IndexError else Inr (last xs)
      | JString s \<Rightarrow> if s = [] then Inl IndexError else Inr (JString [last s])
      | JObject kvs \<Rightarrow> Inl KeyError
      | _ \<Rightarrow> Inl TypeError)"

definition fstring :: "runtime \<Rightarrow> json \<Rightarrow> pystr" where
  "fstring rt v = (case v of JString s \<Rightarrow> s | _ \<Rightarrow> py_format rt v)"

definition primary_tier :: "runtime \<Rightarrow> error + rate_record" where
  "primary_tier rt =
     and_then (urlopen rt (str ''https://www.freddiemac.com/pmms/pmms.json'') 8) (\<lambda>raw.
     and_then (json_loads rt raw) (\<lambda>data.
     and_then (dict_get data (str ''pmms30'') (JArray [JObject []])) (\<lambda>history.
     and_then (index_last history) (\<lambda>latest.
     and_then (dict_get latest (str ''pmms'') (JString (str ''N/A''))) (\<lambda>rate.
     and_then (dict_get latest (str ''weeklyendingdate'') (JString [])) (\<lambda>week.
     Inr [str ''rate'' \<mapsto> JString (fstring rt rate @ str ''%''),
          str ''week'' \<mapsto> week,
          str ''source'' \<mapsto> JString (str ''Freddie Mac Primary Mortgage Market Survey''),
          str ''link'' \<mapsto> JString (str ''https://www.freddiemac.com/pmms''),
          str ''change'' \<mapsto> JString []]))))))"

text \<open>
  \<open>re.search(r"(\d+\.\d+)%", s)\<close>, returning group 1 of the leftmost match. Code point
  46 is the full stop and 37 the percent sign. At a position the pattern matches exactly
  when the longest run of digits is not empty, is followed by a full stop, and the longest
  run of digits behind that is not empty and followed by a percent sign.
\<close>

definition match_rate_at :: "runtime \<Rightarrow> pystr \<Rightarrow> pystr option" where
  "match_rate_at rt s =
     (let d1 = takeWhile (py_isdecimal rt) s; r1 = dropWhile (py_isdecimal rt) s
      in if d1 = [] then None
         else (case r1 of
                 [] \<Rightarrow> None
               | c # r2 \<Rightarrow>
                   if c \<noteq> 46 then None
                   else (let d2 = takeWhile (py_isdecimal rt) r2;
                             r3 = dropWhile (py_isdecimal rt) r2
                         in if d2 \<noteq> [] \<and> r3 \<noteq> [] \<and> hd r3 = 37
                            then Some (d1 @ [46] @ d2) else None)))"

fun search_rate :: "runtime \<Rightarrow> pystr \<Rightarrow> pystr option" where
  "search_rate rt [] = None"
| "search_rate rt (c # cs) =
     (case match_rate_at rt (c # cs) of
        Some g \<Rightarrow> Some g
      | None \<Rightarrow> search_rate rt cs)"

definition secondary_tier :: "runtime \<Rightarrow> rate_record option" where
  "secondary_tier rt =
     (case fetch_rss rt (str ''https://www.mortgagenewsdaily.com/rss/mortgage-rates'') 10 of
        [] \<Rightarrow> None
      | first # _ \<Rightarrow>
          (case search_rate rt (title first @ desc first) of
             None \<Rightarrow> None
           | Some g \<Rightarrow>
               Some [str ''rate'' \<mapsto> JString (g @ str ''%''),
                     str ''week'' \<mapsto> JString (now_strftime rt),
                     str ''source'' \<mapsto> JString (str ''Mortgage News Daily''),
                     str ''link'' \<mapsto> JString
                       (str ''https://www.mortgagenewsdaily.com/mortgage-rates/30-year-fixed''),
                     str ''change'' \<mapsto> JString (title first)]))"

definition tertiary_tier :: "runtime \<Rightarrow> rate_record" where
  "tertiary_tier rt =
     [str ''rate'' \<mapsto> JString (str ''See source '' @ [8594]),
      str ''week'' \<mapsto> JString (now_strftime rt),
      str ''source'' \<mapsto> JString (str ''Bankrate''),
      str ''link'' \<mapsto> JString (str ''https://www.bankrate.com/mortgages/30-year-mortgage-rate/''),
      str ''change'' \<mapsto> JString (str ''Click to see today's current rate'')]"

definition fetch_mortgage_rate :: "runtime \<Rightarrow> rate_record" where
  "fetch_mortgage_rate rt =
     (case primary_tier rt of
        Inr r \<Rightarrow> r
      | Inl e \<Rightarrow> (case secondary_tier rt of Some r \<Rightarrow> r | None \<Rightarrow> tertiary_tier rt))"

text \<open>
  The five fields of a rate record. A value is populated when it is neither \<open>None\<close>
  nor an empty string; a field of a record is populated when the record has the key and
  its value is populated; a record has every field populated when that holds of all five.
\<close>

definition rate_fields :: "pystr list" where
  "rate_fields = [str ''rate'', str ''week'', str ''source'', str ''link'', str ''change'']"

definition value_populated :: "json \<Rightarrow> bool" where
  "value_populated v = (case v of JNull \<Rightarrow> False | JString s \<Rightarrow> s \<noteq> [] | _ \<Rightarrow> True)"

definition field_populated :: "rate_record \<Rightarrow> pystr \<Rightarrow> bool" where
  "field_populated r k = (case r k of None \<Rightarrow> False | Some v \<Rightarrow> value_populated v)"

definition all_populated :: "rate_record \<Rightarrow> bool" where
  "all_populated r = list_all (field_populated r) rate_fields"

text \<open>
  What every record has, whichever tier built it: the five keys, a rate that is a string
  ending in the percent sign or the placeholder, and a non-empty source and link.
\<close>

definition sound_record :: "rate_record \<Rightarrow> bool" where
  "sound_record r \<longleftrightarrow>
     dom r = set rate_fields
     \<and> (\<exists>s. r (str ''rate'') = Some (JString s) \<and> s \<noteq> []
            \<and> (s = str ''See source '' @ [8594] \<or> (\<exists>x. s = x @ str ''%'')))
     \<and> field_populated r (str ''source'')
     \<and> field_populated r (str ''link'')"

section \<open>The relevance filter\<close>

text \<open>\<open>k in text\<close> on two strings is the substring test \<^const>\<open>sublist\<close>.\<close>

definition article_text :: "runtime \<Rightarrow> article \<Rightarrow> pystr" where
  "article_text rt a = py_lower rt (title a @ str '' '' @ desc a)"

definition any_keyword :: "pystr list \<Rightarrow> pystr \<Rightarrow> bool" where
  "any_keyword kw_lower txt = list_ex (\<lambda>k. sublist k txt) kw_lower"

text \<open>The loop of \<open>filter_articles\<close>: the state is the pair \<open>(matched, rest)\<close>.\<close>

fun filter_loop ::
  "runtime \<Rightarrow> pystr list \<Rightarrow> article list \<Rightarrow> article list \<times> article list
    \<Rightarrow> article list \<times> article list" where
  "filter_loop rt kw_lower [] (matched, rest) = (matched, rest)"
| "filter_loop rt kw_lower (a # as) (matched, rest) =
     (if any_keyword kw_lower (article_text rt a)
      then filter_loop rt kw_lower as (matched @ [a], rest)
      else filter_loop rt kw_lower as (matched, rest @ [a]))"

definition filter_articles ::
  "runtime \<Rightarrow> article list \<Rightarrow> pystr list \<Rightarrow> int \<Rightarrow> article list" where
  "filter_articles rt articles keywords max_items =
     (let kw_lower = map (py_lower rt) keywords;
          (matched, rest) = filter_loop rt kw_lower articles ([], []);
          combined = matched @ rest
      in slice_to max_items combined)"

text \<open>
  An article matches a keyword list when its lowercased text (title, one space, summary)
  contains one of the lowercased keywords: the test of the loop above.
\<close>

definition matches :: "runtime \<Rightarrow> pystr list \<Rightarrow> article \<Rightarrow> bool" where
  "matches rt keywords a = any_keyword (map (py_lower rt) keywords) (article_text rt a)"

section \<open>Assembling the digest\<close>

record digest =
  raleigh :: "article list"
  construction :: "article list"
  materials :: "article list"
  mortgage_news :: "article list"

text \<open>\<open>for item in items: item["source"] = feed["name"]\<close>.\<close>

definition set_source :: "feed \<Rightarrow> article list \<Rightarrow> article list" where
  "set_source fd items = map (\<lambda>item. item\<lparr>source := Some (name fd)\<rparr>) items"

text \<open>
  The loops over the Raleigh and the materials feeds have the same body; the loop over the
  construction feeds also extends \<open>mortgage_articles\<close>.
\<close>

fun collect_loop :: "runtime \<Rightarrow> feed list \<Rightarrow> article list \<Rightarrow> article list" where
  "collect_loop rt [] articles = articles"
| "collect_loop rt (fd # fds) articles =
     (let items = fetch_rss rt (url fd) 10;
          items = set_source fd items
      in collect_loop rt fds (articles @ items))"

fun construction_loop ::
  "runtime \<Rightarrow> feed list \<Rightarrow> article list \<times> article list \<Rightarrow> article list \<times> article list" where
  "construction_loop rt [] (construction_articles, mortgage_articles) =
     (construction_articles, mortgage_articles)"
| "construction_loop rt (fd # fds) (construction_articles, mortgage_articles) =
     (let items = fetch_rss rt (url fd) 10;
          items = set_source fd items
      in construction_loop rt fds
           (construction_articles @ items,
            mortgage_articles @ filter_articles rt items MORTGAGE_KEYWORDS 2))"

definition gather_news :: "runtime \<Rightarrow> digest" where
  "gather_news rt =
     (let raleigh_articles = collect_loop rt RSS_FEEDS_raleigh_news [];
          (construction_articles, mortgage_articles) =
             construction_loop rt RSS_FEEDS_construction_news ([], []);
          materials_articles = collect_loop rt RSS_FEEDS_materials_news []
      in \<lparr>raleigh = filter_articles rt raleigh_articles RALEIGH_KEYWORDS 5,
          construction = filter_articles rt construction_articles
             (MATERIAL_KEYWORDS @ map str [''home'', ''build'', ''permit'', ''housing'']) 4,
          materials = filter_articles rt materials_articles MATERIAL_KEYWORDS 4,
          mortgage_news = take 3 mortgage_articles\<rparr>)"

section \<open>Concrete inputs\<close>

text \<open>
  A runtime for running the definitions: ASCII lowercasing and ASCII digits, no entity to
  decode, and a world in which every request for a feed is answered by \<open>feed_result\<close>
  and the request for the rate history by \<open>rate_result\<close>.
\<close>

definition ascii_lower :: "pystr \<Rightarrow> pystr" where
  "ascii_lower s = map (\<lambda>c. if 65 \<le> c \<and> c \<le> 90 then c + 32 else c) s"

definition demo_runtime :: "(error + xml) \<Rightarrow> (error + json) \<Rightarrow> runtime" where
  "demo_runtime feed_result rate_result =
     \<lparr>py_lower = ascii_lower,
      py_unescape = (\<lambda>s. s),
      py_isdecimal = (\<lambda>c. 48 \<le> c \<and> c \<le> 57),
      py_format = (\<lambda>v. str ''?''),
      urlopen = (\<lambda>u timeout. Inr []),
      ET_fromstring = (\<lambda>raw. feed_result),
      json_loads = (\<lambda>raw. rate_result),
      now_strftime = str ''May 09, 2024''\<rparr>"

definition mk_article :: "string \<Rightarrow> string \<Rightarrow> article" where
  "mk_article t d = \<lparr>title = str t, link = [], desc = str d, date = [], source = None\<rparr>"

definition leaf :: "string \<Rightarrow> string \<Rightarrow> xml" where
  "leaf tg tx = Element (str tg) [] (Some (str tx)) []"

text \<open>An RSS document with one item, and an Atom document with one entry.\<close>

definition rss_doc :: "string \<Rightarrow> string \<Rightarrow> xml" where
  "rss_doc t d =
     Element (str ''rss'') [] None
       [Element (str ''channel'') [] None
          [leaf ''title'' ''Feed'',
           Element (str ''item'') [] None [leaf ''title'' t, leaf ''description'' d]]]"

definition atom_doc :: "string \<Rightarrow> string \<Rightarrow> xml" where
  "atom_doc t d =
     Element (atom_tag (str ''feed'')) [] None
       [Element (atom_tag (str ''entry'')) [] None
          [Element (atom_tag (str ''title'')) [] (Some (str t)) [],
           Element (atom_tag (str ''summary'')) [] (Some (str d)) []]]"

text \<open>
  The same world, except that the request to the second construction feed times out.
\<close>

definition one_down_runtime :: runtime where
  "one_down_runtime =
     (demo_runtime (Inr (rss_doc ''Bridge opens'' ''1 < 2'')) (Inl URLError))
       \<lparr>urlopen := (\<lambda>u timeout. if u = str ''https://www.builderonline.com/rss''
                                 then Inl TimeoutError else Inr [])\<rparr>"

text \<open>An RSS document with nine items.\<close>

definition nine_items_doc :: xml where
  "nine_items_doc =
     (let it = Element (str ''item'') [] None [leaf ''title'' ''Story'']
      in Element (str ''rss'') [] None
           [Element (str ''channel'') [] None [it, it, it, it, it, it, it, it, it]])"

text \<open>The rate history of the end-to-end scenario.\<close>

definition pmms_doc :: json where
  "pmms_doc =
     JObject [(str ''pmms30'',
       JArray [JObject [(str ''pmms'', JString (str ''6.72'')),
                        (str ''weeklyendingdate'', JString (str ''2024-05-09''))]])]"


section \<open>Properties of the relevance filter\<close>

lemma filter_loop_eq:
  "filter_loop rt kws as (m, r) =
     (m @ filter (\<lambda>a. any_keyword kws (article_text rt a)) as,
      r @ filter (\<lambda>a. \<not> any_keyword kws (article_text rt a)) as)"
  by (induction as arbitrary: m r) simp_all

lemma filter_articles_eq:
  "filter_articles rt as kws n =
     slice_to n (filter (matches rt kws) as @ filter (\<lambda>a. \<not> matches rt kws a) as)"
proof -
  have "matches rt kws = (\<lambda>a. any_keyword (map (py_lower rt) kws) (article_text rt a))"
    by (rule ext) (simp add: matches_def)
  then show ?thesis
    by (simp add: filter_articles_def filter_loop_eq Let_def matches_def)
qed

lemma length_partition_eq:
  "length (filter P xs @ filter (\<lambda>a. \<not> P a) xs) = length xs"
  by (induction xs) simp_all

lemma set_partition_eq:
  "set (filter P xs @ filter (\<lambda>a. \<not> P a) xs) = set xs"
  by auto

lemma partition_order:
  assumes "i < length (filter P xs @ filter (\<lambda>a. \<not> P a) xs)"
      and "j < length (filter P xs @ filter (\<lambda>a. \<not> P a) xs)"
      and "P ((filter P xs @ filter (\<lambda>a. \<not> P a) xs) ! i)"
      and "\<not> P ((filter P xs @ filter (\<lambda>a. \<not> P a) xs) ! j)"
  shows "i < j"
proof -
  let ?m = "filter P xs" and ?r = "filter (\<lambda>a. \<not> P a) xs"
  have i: "i < length ?m"
  proof (rule ccontr)
    assume "\<not> i < length ?m"
    then have "(?m @ ?r) ! i = ?r ! (i - length ?m)" and "i - length ?m < length ?r"
      using assms(1) by (simp_all add: nth_append)
    then have "(?m @ ?r) ! i \<in> set ?r" by (metis nth_mem)
    with assms(3) show False by simp
  qed
  have j: "\<not> j < length ?m"
  proof
    assume "j < length ?m"
    then have "(?m @ ?r) ! j = ?m ! j" and "?m ! j \<in> set ?m"
      by (simp_all add: nth_append del: set_filter)
    with assms(4) show False by simp
  qed
  from i j show ?thesis by simp
qed

lemma slice_to_prefix: "\<exists>k. slice_to n xs = take k xs"
  by (auto simp: slice_to_def)

section \<open>Properties of the normaliser\<close>

lemma set_strip_tags: "set (strip_tags s) \<subseteq> set s"
proof (induction s rule: strip_tags.induct)
  case 1
  show ?case by simp
next
  case (2 c cs)
  show ?case
  proof (cases "c = 60 \<and> takeWhile (\<lambda>x. x \<noteq> 62) cs \<noteq> [] \<and> dropWhile (\<lambda>x. x \<noteq> 62) cs \<noteq> []")
    case True
    then have "set (strip_tags (c # cs)) \<subseteq> set (tl (dropWhile (\<lambda>x. x \<noteq> 62) cs))"
      using 2(1) by simp
    also have "\<dots> \<subseteq> set (dropWhile (\<lambda>x. x \<noteq> 62) cs)"
      by (metis list.set_sel(2) subsetI tl_Nil)
    also have "\<dots> \<subseteq> set cs"
      by (auto dest: set_dropWhileD)
    finally show ?thesis by auto
  next
    case False
    then show ?thesis using 2(2) by auto
  qed
qed

lemma strip_tags_no_gt: "62 \<notin> set cs \<Longrightarrow> dropWhile (\<lambda>x. x \<noteq> 62) (strip_tags cs) = []"
  using set_strip_tags [of cs] by (auto simp: dropWhile_eq_Nil_conv)

lemma strip_tags_gt_first:
  "takeWhile (\<lambda>x. x \<noteq> 62) cs = [] \<Longrightarrow> takeWhile (\<lambda>x. x \<noteq> 62) (strip_tags cs) = []"
  by (cases cs) (auto split: if_splits)

lemma no_tag_strip_tags: "\<not> has_tag (strip_tags s)"
proof (induction s rule: strip_tags.induct)
  case 1
  show ?case by simp
next
  case (2 c cs)
  show ?case
  proof (cases "c = 60 \<and> takeWhile (\<lambda>x. x \<noteq> 62) cs \<noteq> [] \<and> dropWhile (\<lambda>x. x \<noteq> 62) cs \<noteq> []")
    case True
    then show ?thesis using 2(1) by simp
  next
    case False
    then have eq: "strip_tags (c # cs) = c # strip_tags cs" by auto
    have ih: "\<not> has_tag (strip_tags cs)" using False 2(2) by blast
    have "\<not> (c = 60 \<and> takeWhile (\<lambda>x. x \<noteq> 62) (strip_tags cs) \<noteq> []
              \<and> dropWhile (\<lambda>x. x \<noteq> 62) (strip_tags cs) \<noteq> [])"
    proof
      assume a: "c = 60 \<and> takeWhile (\<lambda>x. x \<noteq> 62) (strip_tags cs) \<noteq> []
              \<and> dropWhile (\<lambda>x. x \<noteq> 62) (strip_tags cs) \<noteq> []"
      with False have "takeWhile (\<lambda>x. x \<noteq> 62) cs = [] \<or> dropWhile (\<lambda>x. x \<noteq> 62) cs = []"
        by blast
      then show False
      proof
        assume "takeWhile (\<lambda>x. x \<noteq> 62) cs = []"
        then show False using a strip_tags_gt_first by blast
      next
        assume "dropWhile (\<lambda>x. x \<noteq> 62) cs = []"
        then have "62 \<notin> set cs" by (auto simp: dropWhile_eq_Nil_conv)
        then show False using a strip_tags_no_gt by blast
      qed
    qed
    with ih eq show ?thesis by simp
  qed
qed

lemma has_tag_split:
  "has_tag s \<Longrightarrow> \<exists>p r q. s = p @ 60 # r @ 62 # q \<and> r \<noteq> [] \<and> 62 \<notin> set r"
proof (induction s)
  case Nil
  then show ?case by simp
next
  case (Cons c cs)
  show ?case
  proof (cases "c = 60 \<and> takeWhile (\<lambda>x. x \<noteq> 62) cs \<noteq> [] \<and> dropWhile (\<lambda>x. x \<noteq> 62) cs \<noteq> []")
    case True
    let ?r = "takeWhile (\<lambda>x. x \<noteq> 62) cs" and ?d = "dropWhile (\<lambda>x. x \<noteq> 62) cs"
    from True have "hd ?d = 62" using hd_dropWhile [of "\<lambda>x. x \<noteq> 62" cs] by auto
    with True have d: "?d = 62 # tl ?d" by (metis list.collapse)
    have "cs = ?r @ ?d" by simp
    with d have "c # cs = [] @ 60 # ?r @ 62 # tl ?d" using True by simp
    moreover have "62 \<notin> set ?r" by (auto dest: set_takeWhileD)
    ultimately show ?thesis using True by blast
  next
    case False
    with Cons.prems have "has_tag cs" by auto
    then obtain p r q where "cs = p @ 60 # r @ 62 # q" "r \<noteq> []" "62 \<notin> set r"
      using Cons.IH by blast
    then have "c # cs = (c # p) @ 60 # r @ 62 # q" by simp
    then show ?thesis using \<open>r \<noteq> []\<close> \<open>62 \<notin> set r\<close> by blast
  qed
qed

lemma has_tag_join:
  "r \<noteq> [] \<Longrightarrow> 62 \<notin> set r \<Longrightarrow> has_tag (p @ 60 # r @ 62 # q)"
proof (induction p)
  case Nil
  have "takeWhile (\<lambda>x. x \<noteq> 62) (r @ 62 # q) = r"
    using Nil(2) by (subst takeWhile_append2) auto
  moreover have "dropWhile (\<lambda>x. x \<noteq> 62) (r @ 62 # q) = 62 # q"
    using Nil(2) by (subst dropWhile_append2) auto
  ultimately show ?case using Nil(1) by simp
next
  case (Cons c p)
  then show ?case by simp
qed

lemma has_tag_iff:
  "has_tag s \<longleftrightarrow> (\<exists>p r q. s = p @ 60 # r @ 62 # q \<and> r \<noteq> [] \<and> 62 \<notin> set r)"
  using has_tag_split has_tag_join by blast

lemma has_tag_embed: "has_tag s \<Longrightarrow> has_tag (a @ s @ b)"
proof -
  assume "has_tag s"
  then obtain p r q where s: "s = p @ 60 # r @ 62 # q" and r: "r \<noteq> []" "62 \<notin> set r"
    using has_tag_split by blast
  have "a @ s @ b = (a @ p) @ 60 # r @ 62 # (q @ b)" by (simp add: s)
  then show ?thesis using has_tag_join [OF r] by metis
qed

lemma strip_embed: "\<exists>a b. s = a @ strip s @ b"
proof -
  let ?t = "dropWhile isspace s"
  have "rev (rev ?t) = rev (takeWhile isspace (rev ?t) @ dropWhile isspace (rev ?t))"
    by (simp only: takeWhile_dropWhile_id)
  then have "?t = strip s @ rev (takeWhile isspace (rev ?t))"
    by (simp only: rev_rev_ident rev_append strip_def)
  moreover have "s = takeWhile isspace s @ ?t" by simp
  ultimately show ?thesis by metis
qed

lemma no_tag_clean_desc: "\<not> has_tag (clean_desc d)"
proof
  assume h: "has_tag (clean_desc d)"
  let ?u = "take 220 (strip_tags d)"
  obtain a b where "?u = a @ strip ?u @ b" using strip_embed by blast
  then have "has_tag ?u" using h has_tag_embed [of "strip ?u" a b] by (simp add: clean_desc_def)
  then have "has_tag ([] @ ?u @ drop 220 (strip_tags d))" by (rule has_tag_embed)
  then show False using no_tag_strip_tags by simp
qed

lemma length_strip: "length (strip s) \<le> length s"
proof -
  have "length (strip s) = length (dropWhile isspace (rev (dropWhile isspace s)))"
    by (simp add: strip_def)
  also have "\<dots> \<le> length (rev (dropWhile isspace s))" by (rule length_dropWhile_le)
  also have "\<dots> \<le> length s" by (simp add: length_dropWhile_le)
  finally show ?thesis .
qed

lemma length_clean_desc: "length (clean_desc d) \<le> 220"
proof -
  have "length (clean_desc d) \<le> length (take 220 (strip_tags d))"
    unfolding clean_desc_def by (rule length_strip)
  then show ?thesis by simp
qed

lemma for_append_eq: "for_append f xs items = items @ map f xs"
  by (induction xs arbitrary: items) simp_all

lemma rss_pass_eq: "rss_pass rt root = map (rss_item rt) (take 8 (findall_desc (str ''item'') root))"
  by (simp add: rss_pass_def for_append_eq)

lemma atom_pass_eq:
  "atom_pass rt root items = items @ map (atom_item rt) (take 8 (findall_desc (atom_tag (str ''entry'')) root))"
  by (simp add: atom_pass_def for_append_eq)

lemma parse_feed_eq:
  "parse_feed rt root =
     (if findall_desc (str ''item'') root = []
      then map (atom_item rt) (take 8 (findall_desc (atom_tag (str ''entry'')) root))
      else map (rss_item rt) (take 8 (findall_desc (str ''item'') root)))"
  by (simp add: parse_feed_def Let_def rss_pass_eq atom_pass_eq)

lemma desc_rss_item: "desc (rss_item rt item) = clean_desc (get rt item (str ''description''))"
  by (simp add: rss_item_def Let_def)

lemma desc_atom_item: "\<exists>d. desc (atom_item rt entry) = clean_desc d"
  by (simp add: atom_item_def Let_def) blast

lemma parse_feed_desc: "a \<in> set (parse_feed rt root) \<Longrightarrow> \<exists>d. desc a = clean_desc d"
  using desc_atom_item desc_rss_item
  by (auto simp: parse_feed_eq split: if_splits dest!: in_set_takeD) 

lemma fetch_rss_cases:
  "fetch_rss rt u t = [] \<or> (\<exists>raw root. urlopen rt u t = Inr raw \<and> ET_fromstring rt raw = Inr root \<and> fetch_rss rt u t = parse_feed rt root)"
  by (auto simp: fetch_rss_def fetch_rss_try_def and_then_def split: sum.splits)

section \<open>The claims about the relevance filter\<close>

lemma str_simps: "str [] = []" "str (c # cs) = of_char c # str cs"
  by (simp_all add: str_def)

lemma take_partition_order:
  assumes "i < length (take k (filter P xs @ filter (\<lambda>a. \<not> P a) xs))"
      and "j < length (take k (filter P xs @ filter (\<lambda>a. \<not> P a) xs))"
      and "P (take k (filter P xs @ filter (\<lambda>a. \<not> P a) xs) ! i)"
      and "\<not> P (take k (filter P xs @ filter (\<lambda>a. \<not> P a) xs) ! j)"
  shows "i < j"
proof -
  define c where "c = filter P xs @ filter (\<lambda>a. \<not> P a) xs"
  have i: "i < length c" "i < k" and j: "j < length c" "j < k"
    using assms(1,2) unfolding c_def [symmetric] by simp_all
  have "P (c ! i)" and "\<not> P (c ! j)"
    using assms(3,4) i j unfolding c_def [symmetric] by simp_all
  then show ?thesis
    using partition_order [of i P xs j] i(1) j(1) unfolding c_def by blast
qed

text \<open>
  Claim C1. For every list of articles, every keyword list and every cap
  \<open>max_items\<close> (a size, so not negative), \<open>filter_articles\<close> returns the articles
  that match (the lowercased text "title, space, summary" contains a lowercased keyword)
  in their original order, followed by the other articles in their original order, cut to
  the first \<open>max_items\<close>. So the result has at most \<open>max_items\<close> articles, and in
  it every matching article stands before every article that does not match.
\<close>

theorem filter_articles_partition:
  assumes "0 \<le> max_items"
  shows "filter_articles rt articles keywords max_items =
           take (nat max_items)
             (filter (matches rt keywords) articles @
              filter (\<lambda>a. \<not> matches rt keywords a) articles)
         \<and> int (length (filter_articles rt articles keywords max_items)) \<le> max_items
         \<and> (\<forall>i j. i < length (filter_articles rt articles keywords max_items)
               \<and> j < length (filter_articles rt articles keywords max_items)
               \<and> matches rt keywords (filter_articles rt articles keywords max_items ! i)
               \<and> \<not> matches rt keywords (filter_articles rt articles keywords max_items ! j)
               \<longrightarrow> i < j)"
proof -
  let ?c = "filter (matches rt keywords) articles @ filter (\<lambda>a. \<not> matches rt keywords a) articles"
  have eq: "filter_articles rt articles keywords max_items = take (nat max_items) ?c"
    using assms by (simp add: filter_articles_eq slice_to_def)
  have len: "int (length (take (nat max_items) ?c)) \<le> max_items"
    using assms by simp
  have ord: "\<forall>i j. i < length (take (nat max_items) ?c) \<and> j < length (take (nat max_items) ?c)
               \<and> matches rt keywords (take (nat max_items) ?c ! i)
               \<and> \<not> matches rt keywords (take (nat max_items) ?c ! j) \<longrightarrow> i < j"
    using take_partition_order [of _ "nat max_items" "matches rt keywords" articles] by blast
  show ?thesis unfolding eq using len ord by blast
qed

text \<open>The filter run on two articles, of which the second matches.\<close>

lemma demo_filter_eval:
  "filter_articles (demo_runtime r1 r2)
      [mk_article ''Town fair'' ''this weekend'', mk_article ''Visit NC'' ''today''] [str ''nc ''] n
   = slice_to n [mk_article ''Visit NC'' ''today'', mk_article ''Town fair'' ''this weekend'']"
  by (simp add: filter_articles_def Let_def article_text_def any_keyword_def demo_runtime_def
      ascii_lower_def mk_article_def str_simps sublist_code prefix_code)

theorem filter_articles_partition_witness:
  "(0::int) \<le> 1 \<and>
   filter_articles (demo_runtime (Inl ParseError) (Inl URLError))
      [mk_article ''Town fair'' ''this weekend'', mk_article ''Visit NC'' ''today''] [str ''nc ''] 1
   = [mk_article ''Visit NC'' ''today'']"
proof -
  have h: "(0::int) \<le> 1" by simp
  show ?thesis
    using filter_articles_partition [OF h, of "demo_runtime (Inl ParseError) (Inl URLError)"
      "[mk_article ''Town fair'' ''this weekend'', mk_article ''Visit NC'' ''today'']" "[str ''nc '']"]
    by (simp add: demo_filter_eval slice_to_def)
qed

text \<open>
  Claim C7. When the input holds at most \<open>max_items\<close> articles, the result has the
  length of the input and holds exactly the articles of the input: none is dropped.
\<close>

theorem filter_articles_no_drop:
  assumes "int (length articles) \<le> max_items"
  shows "length (filter_articles rt articles keywords max_items) = length articles
         \<and> set (filter_articles rt articles keywords max_items) = set articles"
proof -
  let ?c = "filter (matches rt keywords) articles @ filter (\<lambda>a. \<not> matches rt keywords a) articles"
  have len: "length ?c = length articles" by (rule length_partition_eq)
  have "0 \<le> max_items" using assms by linarith
  then have "filter_articles rt articles keywords max_items = take (nat max_items) ?c"
    by (simp add: filter_articles_eq slice_to_def)
  also have "\<dots> = ?c" using assms len by simp
  finally have eq: "filter_articles rt articles keywords max_items = ?c" .
  show ?thesis unfolding eq using len set_partition_eq [of "matches rt keywords" articles] by simp
qed

theorem filter_articles_no_drop_witness:
  "int (length [mk_article ''Town fair'' ''this weekend'', mk_article ''Visit NC'' ''today'']) \<le> 4 \<and>
   length (filter_articles (demo_runtime (Inl ParseError) (Inl URLError))
      [mk_article ''Town fair'' ''this weekend'', mk_article ''Visit NC'' ''today''] [str ''nc ''] 4) = 2
   \<and> mk_article ''Town fair'' ''this weekend'' \<in> set (filter_articles (demo_runtime (Inl ParseError) (Inl URLError))
      [mk_article ''Town fair'' ''this weekend'', mk_article ''Visit NC'' ''today''] [str ''nc ''] 4)"
proof -
  have h: "int (length [mk_article ''Town fair'' ''this weekend'', mk_article ''Visit NC'' ''today'']) \<le> 4"
    by simp
  show ?thesis
    using filter_articles_no_drop [OF h, of "demo_runtime (Inl ParseError) (Inl URLError)" "[str ''nc '']"]
    by simp
qed

section \<open>The claims about fetching and normalising\<close>

text \<open>The feed with one item, fetched and normalised.\<close>

lemma fetch_rss_demo_rss:
  "fetch_rss (demo_runtime (Inr (rss_doc t d)) r) u timeout = [rss_item (demo_runtime (Inr (rss_doc t d)) r)
      (Element (str ''item'') [] None [leaf ''title'' t, leaf ''description'' d])]"
  by (simp add: str_simps fetch_rss_def fetch_rss_try_def and_then_def demo_runtime_def
      parse_feed_def rss_pass_def atom_pass_def findall_desc_def rss_doc_def leaf_def Let_def)

lemma demo_rss_item:
  "rss_item (demo_runtime f r)
      (Element (str ''item'') [] None [leaf ''title'' ''Bridge opens'', leaf ''description'' ''1 < 2''])
   = mk_article ''Bridge opens'' ''1 < 2''"
  by (simp add: str_simps demo_runtime_def leaf_def rss_item_def get_def find_child_def Let_def
      clean_desc_def strip_def isspace_def mk_article_def)

lemma fetch_rss_demo_bridge:
  "fetch_rss (demo_runtime (Inr (rss_doc ''Bridge opens'' ''1 < 2'')) r) u timeout
   = [mk_article ''Bridge opens'' ''1 < 2'']"
  by (simp only: fetch_rss_demo_rss demo_rss_item)

text \<open>
  Claim C4, as it holds of the code. Every article returned by \<open>fetch_rss\<close> has a
  summary of at most 220 characters that holds no complete tag; the summary is some text
  with its tags removed, then cut to 220 characters, then stripped of surrounding
  whitespace. A \<open><\<close> or \<open>>\<close> that belongs to no complete tag is kept.
\<close>

theorem summary_bounded_without_tags:
  assumes "a \<in> set (fetch_rss rt u timeout)"
  shows "length (desc a) \<le> 220 \<and> \<not> has_tag (desc a)
         \<and> (\<exists>d. desc a = strip (take 220 (strip_tags d)))"
proof -
  from assms fetch_rss_cases [of rt u timeout]
  obtain root where "a \<in> set (parse_feed rt root)" by auto
  then obtain d where d: "desc a = clean_desc d" using parse_feed_desc by blast
  then have "desc a = strip (take 220 (strip_tags d))" by (simp add: clean_desc_def)
  then show ?thesis using d length_clean_desc [of d] no_tag_clean_desc [of d] by auto
qed

theorem summary_bounded_without_tags_witness:
  "mk_article ''Bridge opens'' ''1 < 2''
     \<in> set (fetch_rss (demo_runtime (Inr (rss_doc ''Bridge opens'' ''1 < 2'')) (Inl URLError)) [] 10)
   \<and> length (str ''1 < 2'') \<le> 220 \<and> \<not> has_tag (str ''1 < 2'')"
proof -
  have h: "mk_article ''Bridge opens'' ''1 < 2''
     \<in> set (fetch_rss (demo_runtime (Inr (rss_doc ''Bridge opens'' ''1 < 2'')) (Inl URLError)) [] 10)"
    by (simp add: fetch_rss_demo_bridge)
  show ?thesis
    using h summary_bounded_without_tags [OF h] by (simp add: mk_article_def)
qed

text \<open>
  The description \<open>1 < 2\<close> holds no complete tag, so nothing is removed and the summary
  of the article keeps the character \<open><\<close> (code point 60).
\<close>

theorem summary_keeps_delimiter_counterexample:
  "mk_article ''Bridge opens'' ''1 < 2''
     \<in> set (fetch_rss (demo_runtime (Inr (rss_doc ''Bridge opens'' ''1 < 2'')) (Inl URLError)) [] 10)
   \<and> 60 \<in> set (desc (mk_article ''Bridge opens'' ''1 < 2''))"
  by (simp add: fetch_rss_demo_bridge) (simp add: mk_article_def str_simps)

text \<open>
  Claim C5. On a parsed document the entry-based pass runs exactly when the item-based
  pass has produced nothing, which is exactly when the document has no \<open>item\<close>
  element below its root; the result is then the entry-based articles alone, and the
  item-based articles alone otherwise. A document without items that has entries
  yields a non-empty list.
\<close>

theorem atom_pass_only_on_empty:
  "(rss_pass rt root = [] \<longleftrightarrow> findall_desc (str ''item'') root = [])
   \<and> parse_feed rt root = (if rss_pass rt root = [] then atom_pass rt root [] else rss_pass rt root)
   \<and> (findall_desc (str ''item'') root \<noteq> [] \<longrightarrow>
        parse_feed rt root = map (rss_item rt) (take 8 (findall_desc (str ''item'') root)))
   \<and> (findall_desc (str ''item'') root = [] \<longrightarrow>
        parse_feed rt root =
          map (atom_item rt) (take 8 (findall_desc (atom_tag (str ''entry'')) root)))
   \<and> (findall_desc (str ''item'') root = [] \<and> findall_desc (atom_tag (str ''entry'')) root \<noteq> []
        \<longrightarrow> parse_feed rt root \<noteq> [])"
proof -
  have a: "rss_pass rt root = [] \<longleftrightarrow> findall_desc (str ''item'') root = []"
    by (simp add: rss_pass_eq)
  have b: "parse_feed rt root = (if rss_pass rt root = [] then atom_pass rt root [] else rss_pass rt root)"
    by (simp add: parse_feed_def Let_def)
  have c: "findall_desc (str ''item'') root \<noteq> [] \<longrightarrow>
        parse_feed rt root = map (rss_item rt) (take 8 (findall_desc (str ''item'') root))"
    by (simp add: parse_feed_eq)
  have d: "findall_desc (str ''item'') root = [] \<longrightarrow>
        parse_feed rt root = map (atom_item rt) (take 8 (findall_desc (atom_tag (str ''entry'')) root))"
    by (simp add: parse_feed_eq)
  have e: "findall_desc (str ''item'') root = [] \<and> findall_desc (atom_tag (str ''entry'')) root \<noteq> []
        \<longrightarrow> parse_feed rt root \<noteq> []"
    by (simp add: parse_feed_eq)
  from a b c d e show ?thesis by blast
qed

lemma atom_doc_findall:
  "findall_desc (str ''item'') (atom_doc t d) = []"
  "findall_desc (atom_tag (str ''entry'')) (atom_doc t d) \<noteq> []"
  by (simp_all add: findall_desc_def atom_doc_def atom_tag_def str_simps)

theorem atom_pass_only_on_empty_witness:
  "findall_desc (str ''item'') (atom_doc ''Rates'' ''Up again'') = []
   \<and> findall_desc (atom_tag (str ''entry'')) (atom_doc ''Rates'' ''Up again'') \<noteq> []
   \<and> parse_feed (demo_runtime (Inl ParseError) (Inl URLError)) (atom_doc ''Rates'' ''Up again'') \<noteq> []"
  using atom_pass_only_on_empty [of "demo_runtime (Inl ParseError) (Inl URLError)"
      "atom_doc ''Rates'' ''Up again''"] atom_doc_findall [of "''Rates''" "''Up again''"]
  by blast

text \<open>
  Claim C9. \<open>fetch_rss\<close> returns at most 8 articles. The cut to 8 is made on the list
  of elements found in the document, before any of them is normalised: each pass maps
  the first 8 elements to articles.
\<close>

theorem at_most_eight_entries:
  "length (fetch_rss rt u timeout) \<le> 8
   \<and> length (parse_feed rt root) \<le> 8
   \<and> rss_pass rt root = map (rss_item rt) (take 8 (findall_desc (str ''item'') root))
   \<and> atom_pass rt root [] =
       map (atom_item rt) (take 8 (findall_desc (atom_tag (str ''entry'')) root))"
proof -
  have p: "length (parse_feed rt r) \<le> 8" for r
    by (simp add: parse_feed_eq)
  have "length (fetch_rss rt u timeout) \<le> 8"
    using fetch_rss_cases [of rt u timeout] p by auto
  then show ?thesis using p [of root] by (simp add: rss_pass_eq atom_pass_eq)
qed

lemma nine_items_doc_findall: "length (findall_desc (str ''item'') nine_items_doc) = 9"
  by (simp add: findall_desc_def nine_items_doc_def leaf_def str_simps Let_def)

theorem at_most_eight_entries_witness:
  "length (findall_desc (str ''item'') nine_items_doc) = 9
   \<and> length (parse_feed (demo_runtime (Inl ParseError) (Inl URLError)) nine_items_doc) \<le> 8"
  using at_most_eight_entries [of "demo_runtime (Inl ParseError) (Inl URLError)" "[]" 10
      nine_items_doc] nine_items_doc_findall
  by blast

section \<open>The claims about the digest\<close>

lemma collect_loop_eq:
  "collect_loop rt fds articles =
     articles @ concat (map (\<lambda>fd. set_source fd (fetch_rss rt (url fd) 10)) fds)"
  by (induction fds arbitrary: articles) (simp_all add: Let_def)

lemma construction_loop_eq:
  "construction_loop rt fds (c, m) =
     (c @ concat (map (\<lambda>fd. set_source fd (fetch_rss rt (url fd) 10)) fds),
      m @ concat (map (\<lambda>fd. filter_articles rt (set_source fd (fetch_rss rt (url fd) 10))
                               MORTGAGE_KEYWORDS 2) fds))"
  by (induction fds arbitrary: c m) (simp_all add: Let_def)

lemma filter_articles_Nil: "filter_articles rt [] kws n = []"
  by (simp add: filter_articles_eq slice_to_def)

lemma gather_news_eq:
  "gather_news rt =
     \<lparr>raleigh = filter_articles rt
        (concat (map (\<lambda>fd. set_source fd (fetch_rss rt (url fd) 10)) RSS_FEEDS_raleigh_news))
        RALEIGH_KEYWORDS 5,
      construction = filter_articles rt
        (concat (map (\<lambda>fd. set_source fd (fetch_rss rt (url fd) 10)) RSS_FEEDS_construction_news))
        (MATERIAL_KEYWORDS @ map str [''home'', ''build'', ''permit'', ''housing'']) 4,
      materials = filter_articles rt
        (concat (map (\<lambda>fd. set_source fd (fetch_rss rt (url fd) 10)) RSS_FEEDS_materials_news))
        MATERIAL_KEYWORDS 4,
      mortgage_news = take 3
        (concat (map (\<lambda>fd. filter_articles rt (set_source fd (fetch_rss rt (url fd) 10))
                               MORTGAGE_KEYWORDS 2) RSS_FEEDS_construction_news))\<rparr>"
  by (simp add: gather_news_def collect_loop_eq construction_loop_eq Let_def)

text \<open>
  Claim C3. Whatever fails in the \<open>try\<close> block of \<open>fetch_rss\<close> (the request or the
  parse), the function returns the empty list. In \<open>gather_news\<close> a feed whose fetch
  returns nothing leaves the loops exactly as if the feed were not in the list: the feeds
  before and after it are fetched and contribute as they do without it. The digest is
  computed from the fetch of every configured feed.
\<close>

theorem fetch_failure_is_isolated:
  "(fetch_rss_try rt u timeout = Inl e \<longrightarrow> fetch_rss rt u timeout = [])
   \<and> (urlopen rt u timeout = Inl e \<longrightarrow> fetch_rss_try rt u timeout = Inl e)
   \<and> (urlopen rt u timeout = Inr raw \<and> ET_fromstring rt raw = Inl e \<longrightarrow>
        fetch_rss_try rt u timeout = Inl e)
   \<and> (fetch_rss rt (url fd) 10 = [] \<longrightarrow>
        collect_loop rt (pre @ fd # post) articles = collect_loop rt (pre @ post) articles
        \<and> construction_loop rt (pre @ fd # post) (articles, mortgage_articles)
            = construction_loop rt (pre @ post) (articles, mortgage_articles))
   \<and> gather_news rt =
       \<lparr>raleigh = filter_articles rt
          (concat (map (\<lambda>fd. set_source fd (fetch_rss rt (url fd) 10)) RSS_FEEDS_raleigh_news))
          RALEIGH_KEYWORDS 5,
        construction = filter_articles rt
          (concat (map (\<lambda>fd. set_source fd (fetch_rss rt (url fd) 10)) RSS_FEEDS_construction_news))
          (MATERIAL_KEYWORDS @ map str [''home'', ''build'', ''permit'', ''housing'']) 4,
        materials = filter_articles rt
          (concat (map (\<lambda>fd. set_source fd (fetch_rss rt (url fd) 10)) RSS_FEEDS_materials_news))
          MATERIAL_KEYWORDS 4,
        mortgage_news = take 3
          (concat (map (\<lambda>fd. filter_articles rt (set_source fd (fetch_rss rt (url fd) 10))
                                 MORTGAGE_KEYWORDS 2) RSS_FEEDS_construction_news))\<rparr>"
proof -
  have a: "fetch_rss_try rt u timeout = Inl e \<longrightarrow> fetch_rss rt u timeout = []"
    by (simp add: fetch_rss_def)
  have b: "urlopen rt u timeout = Inl e \<longrightarrow> fetch_rss_try rt u timeout = Inl e"
    by (simp add: fetch_rss_try_def and_then_def)
  have c: "urlopen rt u timeout = Inr raw \<and> ET_fromstring rt raw = Inl e \<longrightarrow>
        fetch_rss_try rt u timeout = Inl e"
    by (simp add: fetch_rss_try_def and_then_def)
  have d: "fetch_rss rt (url fd) 10 = [] \<longrightarrow>
        collect_loop rt (pre @ fd # post) articles = collect_loop rt (pre @ post) articles
        \<and> construction_loop rt (pre @ fd # post) (articles, mortgage_articles)
            = construction_loop rt (pre @ post) (articles, mortgage_articles)"
    by (simp add: collect_loop_eq construction_loop_eq set_source_def filter_articles_Nil)
  from a b c d gather_news_eq [of rt] show ?thesis by blast
qed

text \<open>The world in which the second construction feed times out.\<close>

lemma one_down_fetch:
  "fetch_rss one_down_runtime (str ''https://www.builderonline.com/rss'') 10 = []"
  "fetch_rss one_down_runtime (str ''https://www.constructiondive.com/feeds/news/'') 10
     = [mk_article ''Bridge opens'' ''1 < 2'']"
  "fetch_rss one_down_runtime (str ''https://nahbnow.com/feed/'') 10
     = [mk_article ''Bridge opens'' ''1 < 2'']"
  by (simp_all add: str_simps fetch_rss_def fetch_rss_try_def and_then_def one_down_runtime_def
      demo_runtime_def parse_feed_def rss_pass_def atom_pass_def findall_desc_def rss_doc_def
      leaf_def rss_item_def get_def find_child_def Let_def clean_desc_def strip_def isspace_def
      mk_article_def)

theorem fetch_failure_is_isolated_witness:
  "fetch_rss one_down_runtime (str ''https://www.builderonline.com/rss'') 10 = []
   \<and> map source (collect_loop one_down_runtime RSS_FEEDS_construction_news [])
       = [Some (str ''Construction Dive''), Some (str ''NAHB Now'')]"
proof -
  define cd where "cd = \<lparr>name = str ''Construction Dive'',
                          url = str ''https://www.constructiondive.com/feeds/news/''\<rparr>"
  define bo where "bo = \<lparr>name = str ''Builder Online'',
                          url = str ''https://www.builderonline.com/rss''\<rparr>"
  define nn where "nn = \<lparr>name = str ''NAHB Now'', url = str ''https://nahbnow.com/feed/''\<rparr>"
  have h: "fetch_rss one_down_runtime (url bo) 10 = []"
    by (simp add: bo_def one_down_fetch)
  have e: "collect_loop one_down_runtime ([cd] @ bo # [nn]) []
          = collect_loop one_down_runtime ([cd] @ [nn]) []"
    using h fetch_failure_is_isolated [of one_down_runtime _ _ _ _ bo "[cd]" "[nn]" "[]"]
    by blast
  have s: "RSS_FEEDS_construction_news = [cd] @ bo # [nn]"
    by (simp add: RSS_FEEDS_construction_news_def cd_def bo_def nn_def)
  have v: "map source (collect_loop one_down_runtime ([cd] @ [nn]) [])
       = [Some (str ''Construction Dive''), Some (str ''NAHB Now'')]"
    by (simp add: cd_def nn_def one_down_fetch set_source_def Let_def)
  have "map source (collect_loop one_down_runtime RSS_FEEDS_construction_news [])
       = [Some (str ''Construction Dive''), Some (str ''NAHB Now'')]"
    by (simp only: s e v)
  moreover have "fetch_rss one_down_runtime (str ''https://www.builderonline.com/rss'') 10 = []"
    by (rule one_down_fetch(1))
  ultimately show ?thesis by (rule conjI [rotated])
qed

section \<open>The claims about the mortgage rate\<close>

text \<open>The five field names differ, so a record written as five updates has them all.\<close>

lemma keys_distinct:
  "distinct [str ''rate'', str ''week'', str ''source'', str ''link'', str ''change'']"
  by (simp add: str_simps)

lemma record_fields:
  fixes r :: rate_record
  assumes "r = [str ''rate'' \<mapsto> a, str ''week'' \<mapsto> b, str ''source'' \<mapsto> c,
                str ''link'' \<mapsto> d, str ''change'' \<mapsto> e]"
  shows "dom r = {str ''rate'', str ''week'', str ''source'', str ''link'', str ''change''}"
    and "r (str ''rate'') = Some a" and "r (str ''week'') = Some b"
    and "r (str ''source'') = Some c" and "r (str ''link'') = Some d"
    and "r (str ''change'') = Some e"
  using keys_distinct unfolding assms by auto

lemma primary_tier_shape:
  assumes "primary_tier rt = Inr r"
  shows "\<exists>x w. r = [str ''rate'' \<mapsto> JString (x @ str ''%''), str ''week'' \<mapsto> w,
            str ''source'' \<mapsto> JString (str ''Freddie Mac Primary Mortgage Market Survey''),
            str ''link'' \<mapsto> JString (str ''https://www.freddiemac.com/pmms''),
            str ''change'' \<mapsto> JString []]"
  using assms unfolding primary_tier_def and_then_def
  by (auto split: sum.splits)

lemma secondary_tier_shape:
  assumes "secondary_tier rt = Some r"
  shows "\<exists>x t. r = [str ''rate'' \<mapsto> JString (x @ str ''%''),
            str ''week'' \<mapsto> JString (now_strftime rt),
            str ''source'' \<mapsto> JString (str ''Mortgage News Daily''),
            str ''link'' \<mapsto> JString
               (str ''https://www.mortgagenewsdaily.com/mortgage-rates/30-year-fixed''),
            str ''change'' \<mapsto> JString t]"
  using assms unfolding secondary_tier_def
  by (auto split: list.splits option.splits)

lemma rate_nonempty_percent: "x @ str ''%'' \<noteq> []"
  by (simp add: str_simps)

lemma rate_nonempty_placeholder: "str ''See source '' @ [8594] \<noteq> []"
  by simp

lemma link_source_nonempty:
  "str ''Freddie Mac Primary Mortgage Market Survey'' \<noteq> []"
  "str ''https://www.freddiemac.com/pmms'' \<noteq> []"
  "str ''Mortgage News Daily'' \<noteq> []"
  "str ''https://www.mortgagenewsdaily.com/mortgage-rates/30-year-fixed'' \<noteq> []"
  "str ''Bankrate'' \<noteq> []"
  "str ''https://www.bankrate.com/mortgages/30-year-mortgage-rate/'' \<noteq> []"
  "str ''Click to see today's current rate'' \<noteq> []"
  by (simp_all add: str_simps)

lemma sound_recordI:
  fixes r :: rate_record
  assumes r: "r = [str ''rate'' \<mapsto> JString s, str ''week'' \<mapsto> w, str ''source'' \<mapsto> JString c,
                   str ''link'' \<mapsto> JString d, str ''change'' \<mapsto> e]"
      and s: "s \<noteq> []" "s = str ''See source '' @ [8594] \<or> (\<exists>x. s = x @ str ''%'')"
      and c: "c \<noteq> []" and d: "d \<noteq> []"
  shows "sound_record r"
proof -
  have "dom r = set rate_fields"
    using record_fields(1) [OF r] by (simp add: rate_fields_def)
  moreover have "r (str ''rate'') = Some (JString s)" by (rule record_fields(2) [OF r])
  moreover have "field_populated r (str ''source'')"
    using record_fields(4) [OF r] c by (simp add: field_populated_def value_populated_def)
  moreover have "field_populated r (str ''link'')"
    using record_fields(5) [OF r] d by (simp add: field_populated_def value_populated_def)
  ultimately show ?thesis using s unfolding sound_record_def by blast
qed

lemma sound_primary: "primary_tier rt = Inr r \<Longrightarrow> sound_record r"
proof -
  assume "primary_tier rt = Inr r"
  then obtain x w where r: "r = [str ''rate'' \<mapsto> JString (x @ str ''%''), str ''week'' \<mapsto> w,
            str ''source'' \<mapsto> JString (str ''Freddie Mac Primary Mortgage Market Survey''),
            str ''link'' \<mapsto> JString (str ''https://www.freddiemac.com/pmms''),
            str ''change'' \<mapsto> JString []]"
    using primary_tier_shape by blast
  show ?thesis
    by (rule sound_recordI [OF r rate_nonempty_percent _ link_source_nonempty(1,2)]) blast
qed

lemma sound_secondary:
  assumes "secondary_tier rt = Some r"
  shows "sound_record r" and "r (str ''week'') = Some (JString (now_strftime rt))"
proof -
  from assms obtain x t where r: "r = [str ''rate'' \<mapsto> JString (x @ str ''%''),
            str ''week'' \<mapsto> JString (now_strftime rt),
            str ''source'' \<mapsto> JString (str ''Mortgage News Daily''),
            str ''link'' \<mapsto> JString
               (str ''https://www.mortgagenewsdaily.com/mortgage-rates/30-year-fixed''),
            str ''change'' \<mapsto> JString t]"
    using secondary_tier_shape by blast
  show "sound_record r"
    by (rule sound_recordI [OF r rate_nonempty_percent _ link_source_nonempty(3,4)]) blast
  show "r (str ''week'') = Some (JString (now_strftime rt))"
    by (rule record_fields(3) [OF r])
qed

lemma sound_tertiary:
  "sound_record (tertiary_tier rt)"
  "tertiary_tier rt (str ''week'') = Some (JString (now_strftime rt))"
  "tertiary_tier rt (str ''rate'') = Some (JString (str ''See source '' @ [8594]))"
proof -
  show "sound_record (tertiary_tier rt)"
    by (rule sound_recordI [OF tertiary_tier_def rate_nonempty_placeholder _
          link_source_nonempty(5,6)]) blast
  show "tertiary_tier rt (str ''week'') = Some (JString (now_strftime rt))"
    by (rule record_fields(3) [OF tertiary_tier_def])
  show "tertiary_tier rt (str ''rate'') = Some (JString (str ''See source '' @ [8594]))"
    by (rule record_fields(2) [OF tertiary_tier_def])
qed

lemma tertiary_all_populated:
  assumes "now_strftime rt \<noteq> []"
  shows "all_populated (tertiary_tier rt)"
  using assms record_fields(2-6) [OF tertiary_tier_def [of rt]] link_source_nonempty(5-7)
    rate_nonempty_placeholder
  by (simp add: all_populated_def rate_fields_def field_populated_def value_populated_def)

text \<open>
  Claim C2, as it holds of the code. \<open>fetch_mortgage_rate\<close> returns a record for every
  runtime, whatever fails. The record has the five fields \<open>rate\<close>, \<open>week\<close>,
  \<open>source\<close>, \<open>link\<close> and \<open>change\<close>; its rate is a non-empty string (a text
  followed by the percent sign, or the placeholder), and its source and link are
  populated. When the first tier fails, the week is the current date. The last tier has
  no step that can raise: it is the result whenever the first two tiers have failed, and
  every field of its record is populated (the date given by the runtime is not empty).
  The fields \<open>week\<close> and \<open>change\<close> of a record of the first tier need not be
  populated.
\<close>

theorem fetch_mortgage_rate_always_returns:
  "dom (fetch_mortgage_rate rt) = set rate_fields
   \<and> (\<exists>s. fetch_mortgage_rate rt (str ''rate'') = Some (JString s) \<and> s \<noteq> []
          \<and> (s = str ''See source '' @ [8594] \<or> (\<exists>x. s = x @ str ''%'')))
   \<and> field_populated (fetch_mortgage_rate rt) (str ''source'')
   \<and> field_populated (fetch_mortgage_rate rt) (str ''link'')
   \<and> (\<forall>e. primary_tier rt = Inl e \<longrightarrow>
          fetch_mortgage_rate rt (str ''week'') = Some (JString (now_strftime rt)))
   \<and> (\<forall>e. primary_tier rt = Inl e \<and> secondary_tier rt = None \<longrightarrow>
          fetch_mortgage_rate rt = tertiary_tier rt)
   \<and> (now_strftime rt \<noteq> [] \<longrightarrow> all_populated (tertiary_tier rt))"
proof -
  have "sound_record (fetch_mortgage_rate rt)"
    unfolding fetch_mortgage_rate_def
    using sound_primary sound_secondary(1) sound_tertiary(1)
    by (auto split: sum.splits option.splits)
  then have a: "dom (fetch_mortgage_rate rt) = set rate_fields
     \<and> (\<exists>s. fetch_mortgage_rate rt (str ''rate'') = Some (JString s) \<and> s \<noteq> []
          \<and> (s = str ''See source '' @ [8594] \<or> (\<exists>x. s = x @ str ''%'')))
     \<and> field_populated (fetch_mortgage_rate rt) (str ''source'')
     \<and> field_populated (fetch_mortgage_rate rt) (str ''link'')"
    unfolding sound_record_def .
  have b: "\<forall>e. primary_tier rt = Inl e \<longrightarrow>
          fetch_mortgage_rate rt (str ''week'') = Some (JString (now_strftime rt))"
    unfolding fetch_mortgage_rate_def
    using sound_secondary(2) sound_tertiary(2)
    by (auto split: option.splits)
  have c: "\<forall>e. primary_tier rt = Inl e \<and> secondary_tier rt = None \<longrightarrow>
          fetch_mortgage_rate rt = tertiary_tier rt"
    by (simp add: fetch_mortgage_rate_def)
  have d: "now_strftime rt \<noteq> [] \<longrightarrow> all_populated (tertiary_tier rt)"
    using tertiary_all_populated by blast
  from a b c d show ?thesis by blast
qed

text \<open>A world in which the rate history is not JSON and the feed does not parse.\<close>

lemma demo_tiers_fail:
  "primary_tier (demo_runtime (Inl ParseError) (Inl JSONDecodeError)) = Inl JSONDecodeError"
  "secondary_tier (demo_runtime (Inl ParseError) (Inl JSONDecodeError)) = None"
  by (simp_all add: primary_tier_def secondary_tier_def and_then_def demo_runtime_def
      fetch_rss_def fetch_rss_try_def)

lemma demo_now: "now_strftime (demo_runtime f r) = str ''May 09, 2024''"
  "str ''May 09, 2024'' \<noteq> []"
  by (simp_all add: demo_runtime_def str_simps)

theorem fetch_mortgage_rate_always_returns_witness:
  "primary_tier (demo_runtime (Inl ParseError) (Inl JSONDecodeError)) = Inl JSONDecodeError
   \<and> secondary_tier (demo_runtime (Inl ParseError) (Inl JSONDecodeError)) = None
   \<and> now_strftime (demo_runtime (Inl ParseError) (Inl JSONDecodeError)) \<noteq> []
   \<and> fetch_mortgage_rate (demo_runtime (Inl ParseError) (Inl JSONDecodeError))
       = tertiary_tier (demo_runtime (Inl ParseError) (Inl JSONDecodeError))
   \<and> all_populated (fetch_mortgage_rate (demo_runtime (Inl ParseError) (Inl JSONDecodeError)))
   \<and> fetch_mortgage_rate (demo_runtime (Inl ParseError) (Inl JSONDecodeError)) (str ''week'')
       = Some (JString (str ''May 09, 2024''))"
proof -
  let ?rt = "demo_runtime (Inl ParseError) (Inl JSONDecodeError)"
  note t = fetch_mortgage_rate_always_returns [of ?rt]
  have n: "now_strftime ?rt \<noteq> []" by (simp add: demo_now)
  have e: "fetch_mortgage_rate ?rt = tertiary_tier ?rt"
    using t demo_tiers_fail by blast
  have p: "all_populated (tertiary_tier ?rt)" using t n by blast
  have w: "fetch_mortgage_rate ?rt (str ''week'') = Some (JString (now_strftime ?rt))"
    using t demo_tiers_fail(1) by blast
  show ?thesis
    using demo_tiers_fail n e p w by (simp add: demo_now(1))
qed

text \<open>
  The rate source answers with the empty JSON object. The first tier succeeds with its
  defaults, and the week of the record is the empty string: that field is not populated.
\<close>

lemma demo_empty_week:
  "fetch_mortgage_rate (demo_runtime f (Inr (JObject []))) (str ''week'') = Some (JString [])"
  "fetch_mortgage_rate (demo_runtime f (Inr (JObject []))) (str ''change'') = Some (JString [])"
  by (simp_all add: str_simps fetch_mortgage_rate_def primary_tier_def and_then_def
      demo_runtime_def dict_get_def index_last_def fstring_def)

theorem rate_record_empty_week_counterexample:
  "fetch_mortgage_rate (demo_runtime (Inl ParseError) (Inr (JObject []))) (str ''week'')
     = Some (JString [])
   \<and> \<not> field_populated (fetch_mortgage_rate (demo_runtime (Inl ParseError) (Inr (JObject []))))
         (str ''week'')
   \<and> \<not> all_populated (fetch_mortgage_rate (demo_runtime (Inl ParseError) (Inr (JObject []))))"
proof -
  let ?r = "fetch_mortgage_rate (demo_runtime (Inl ParseError) (Inr (JObject [])))"
  have w: "?r (str ''week'') = Some (JString [])" by (rule demo_empty_week(1))
  then have n: "\<not> field_populated ?r (str ''week'')"
    by (simp add: field_populated_def value_populated_def)
  then have "\<not> all_populated ?r"
    by (simp add: all_populated_def rate_fields_def)
  with w n show ?thesis by blast
qed

text \<open>
  A last entry whose \<open>weeklyendingdate\<close> is \<open>null\<close> and whose \<open>pmms\<close> is the
  empty string gives the week \<open>None\<close> and the rate \<open>%\<close>.
\<close>

lemma demo_null_week:
  "fetch_mortgage_rate
     (demo_runtime f (Inr (JObject [(str ''pmms30'',
        JArray [JObject [(str ''pmms'', JString []), (str ''weeklyendingdate'', JNull)]])])))
     (str ''week'') = Some JNull"
  "fetch_mortgage_rate
     (demo_runtime f (Inr (JObject [(str ''pmms30'',
        JArray [JObject [(str ''pmms'', JString []), (str ''weeklyendingdate'', JNull)]])])))
     (str ''rate'') = Some (JString (str ''%''))"
  by (simp_all add: str_simps fetch_mortgage_rate_def primary_tier_def and_then_def
      demo_runtime_def dict_get_def index_last_def fstring_def)

text \<open>
  The first tier reads the last element of the list under \<open>pmms30\<close>: its \<open>pmms\<close>
  is the rate and its \<open>weeklyendingdate\<close> the week, each with its default.
\<close>

lemma primary_tier_latest:
  assumes "urlopen rt (str ''https://www.freddiemac.com/pmms/pmms.json'') 8 = Inr raw"
      and "json_loads rt raw = Inr (JObject kvs)"
      and "map_of kvs (str ''pmms30'') = Some (JArray entries)"
      and "entries \<noteq> []" and "last entries = JObject latest"
  shows "primary_tier rt =
     Inr [str ''rate'' \<mapsto> JString (fstring rt
             (case map_of latest (str ''pmms'') of None \<Rightarrow> JString (str ''N/A'') | Some v \<Rightarrow> v)
               @ str ''%''),
          str ''week'' \<mapsto>
             (case map_of latest (str ''weeklyendingdate'') of None \<Rightarrow> JString [] | Some v \<Rightarrow> v),
          str ''source'' \<mapsto> JString (str ''Freddie Mac Primary Mortgage Market Survey''),
          str ''link'' \<mapsto> JString (str ''https://www.freddiemac.com/pmms''),
          str ''change'' \<mapsto> JString []]"
  using assms by (simp add: primary_tier_def and_then_def dict_get_def index_last_def)

lemma scenario_fields_distinct: "str ''pmms'' \<noteq> str ''weeklyendingdate''"
  by (simp add: str_simps)

text \<open>
  Claim C8. When the rate source answers with a document whose \<open>pmms30\<close> list ends
  with the entry \<open>{"pmms": r, "weeklyendingdate": w}\<close>, the record has the rate
  \<open>r%\<close> and the week \<open>w\<close>, whatever entries stand before the last one. For the
  document of the scenario (no older entry, \<open>r = 6.72\<close>, \<open>w = 2024-05-09\<close>) the
  rate is \<open>6.72%\<close> and the week \<open>2024-05-09\<close>.
\<close>

theorem primary_rate_from_latest_entry:
  assumes "urlopen rt (str ''https://www.freddiemac.com/pmms/pmms.json'') 8 = Inr raw"
      and "json_loads rt raw =
             Inr (JObject [(str ''pmms30'',
                    JArray (older @ [JObject [(str ''pmms'', JString r),
                                              (str ''weeklyendingdate'', JString w)]]))])"
  shows "fetch_mortgage_rate rt (str ''rate'') = Some (JString (r @ str ''%''))
         \<and> fetch_mortgage_rate rt (str ''week'') = Some (JString w)"
proof -
  let ?latest = "[(str ''pmms'', JString r), (str ''weeklyendingdate'', JString w)]"
  have m: "map_of [(str ''pmms30'', JArray (older @ [JObject ?latest]))] (str ''pmms30'')
             = Some (JArray (older @ [JObject ?latest]))"
    by simp
  have p: "primary_tier rt =
     Inr [str ''rate'' \<mapsto> JString (fstring rt
             (case map_of ?latest (str ''pmms'') of None \<Rightarrow> JString (str ''N/A'') | Some v \<Rightarrow> v)
               @ str ''%''),
          str ''week'' \<mapsto>
             (case map_of ?latest (str ''weeklyendingdate'') of None \<Rightarrow> JString [] | Some v \<Rightarrow> v),
          str ''source'' \<mapsto> JString (str ''Freddie Mac Primary Mortgage Market Survey''),
          str ''link'' \<mapsto> JString (str ''https://www.freddiemac.com/pmms''),
          str ''change'' \<mapsto> JString []]"
    by (rule primary_tier_latest [OF assms(1) assms(2) m]) simp_all
  have f: "fstring rt (case map_of ?latest (str ''pmms'') of None \<Rightarrow> JString (str ''N/A'') | Some v \<Rightarrow> v) = r"
    by (simp add: fstring_def)
  have g: "(case map_of ?latest (str ''weeklyendingdate'') of None \<Rightarrow> JString [] | Some v \<Rightarrow> v) = JString w"
    using scenario_fields_distinct by simp
  have q: "fetch_mortgage_rate rt =
        [str ''rate'' \<mapsto> JString (r @ str ''%''),
          str ''week'' \<mapsto> JString w,
          str ''source'' \<mapsto> JString (str ''Freddie Mac Primary Mortgage Market Survey''),
          str ''link'' \<mapsto> JString (str ''https://www.freddiemac.com/pmms''),
          str ''change'' \<mapsto> JString []]"
    unfolding fetch_mortgage_rate_def p f g by simp
  show ?thesis using record_fields(2,3) [OF q] by simp
qed

lemma demo_pmms_request:
  "urlopen (demo_runtime f (Inr pmms_doc)) (str ''https://www.freddiemac.com/pmms/pmms.json'') 8 = Inr []"
  "json_loads (demo_runtime f (Inr pmms_doc)) [] =
     Inr (JObject [(str ''pmms30'',
            JArray ([] @ [JObject [(str ''pmms'', JString (str ''6.72'')),
                                   (str ''weeklyendingdate'', JString (str ''2024-05-09''))]]))])"
  by (simp_all add: demo_runtime_def pmms_doc_def)

theorem primary_rate_from_latest_entry_witness:
  "json_loads (demo_runtime (Inl ParseError) (Inr pmms_doc)) [] = Inr pmms_doc
   \<and> fetch_mortgage_rate (demo_runtime (Inl ParseError) (Inr pmms_doc)) (str ''rate'')
       = Some (JString (str ''6.72%''))
   \<and> fetch_mortgage_rate (demo_runtime (Inl ParseError) (Inr pmms_doc)) (str ''week'')
       = Some (JString (str ''2024-05-09''))"
proof -
  have "json_loads (demo_runtime (Inl ParseError) (Inr pmms_doc)) [] = Inr pmms_doc"
    by (simp add: demo_runtime_def)
  moreover have "str ''6.72'' @ str ''%'' = str ''6.72%''"
    by (simp add: str_simps)
  ultimately show ?thesis
    using primary_rate_from_latest_entry [OF demo_pmms_request, of "Inl ParseError"]
    by simp
qed

text \<open>
  Claim C10. When the rate source answers with a JSON object that has no key
  \<open>pmms30\<close>, the first tier succeeds with the defaults: the result is the record of
  the first tier with the rate \<open>N/A%\<close> and an empty week, and the second tier is not
  consulted.
\<close>

theorem primary_without_history_key:
  assumes "urlopen rt (str ''https://www.freddiemac.com/pmms/pmms.json'') 8 = Inr raw"
      and "json_loads rt raw = Inr (JObject kvs)"
      and "map_of kvs (str ''pmms30'') = None"
  shows "primary_tier rt =
           Inr [str ''rate'' \<mapsto> JString (str ''N/A%''),
                str ''week'' \<mapsto> JString [],
                str ''source'' \<mapsto> JString (str ''Freddie Mac Primary Mortgage Market Survey''),
                str ''link'' \<mapsto> JString (str ''https://www.freddiemac.com/pmms''),
                str ''change'' \<mapsto> JString []]
         \<and> fetch_mortgage_rate rt =
               [str ''rate'' \<mapsto> JString (str ''N/A%''),
                str ''week'' \<mapsto> JString [],
                str ''source'' \<mapsto> JString (str ''Freddie Mac Primary Mortgage Market Survey''),
                str ''link'' \<mapsto> JString (str ''https://www.freddiemac.com/pmms''),
                str ''change'' \<mapsto> JString []]
         \<and> fetch_mortgage_rate rt (str ''rate'') = Some (JString (str ''N/A%''))
         \<and> fetch_mortgage_rate rt (str ''week'') = Some (JString [])"
proof -
  have n: "str ''N/A'' @ str ''%'' = str ''N/A%''" by (simp add: str_simps)
  have p: "primary_tier rt =
           Inr [str ''rate'' \<mapsto> JString (str ''N/A%''),
                str ''week'' \<mapsto> JString [],
                str ''source'' \<mapsto> JString (str ''Freddie Mac Primary Mortgage Market Survey''),
                str ''link'' \<mapsto> JString (str ''https://www.freddiemac.com/pmms''),
                str ''change'' \<mapsto> JString []]"
    using assms
    by (simp add: primary_tier_def and_then_def dict_get_def index_last_def fstring_def n)
  then have q: "fetch_mortgage_rate rt =
               [str ''rate'' \<mapsto> JString (str ''N/A%''),
                str ''week'' \<mapsto> JString [],
                str ''source'' \<mapsto> JString (str ''Freddie Mac Primary Mortgage Market Survey''),
                str ''link'' \<mapsto> JString (str ''https://www.freddiemac.com/pmms''),
                str ''change'' \<mapsto> JString []]"
    by (simp add: fetch_mortgage_rate_def)
  show ?thesis using p q record_fields(2,3) [OF q] by simp
qed

lemma demo_empty_object:
  "urlopen (demo_runtime f (Inr (JObject []))) (str ''https://www.freddiemac.com/pmms/pmms.json'') 8
     = Inr []"
  "json_loads (demo_runtime f (Inr (JObject []))) [] = Inr (JObject [])"
  "map_of ([] :: (pystr \<times> json) list) (str ''pmms30'') = None"
  by (simp_all add: demo_runtime_def)

theorem primary_without_history_key_witness:
  "json_loads (demo_runtime (Inr (atom_doc ''Rates'' ''Now at 6.87% again'')) (Inr (JObject []))) []
     = Inr (JObject [])
   \<and> fetch_mortgage_rate (demo_runtime (Inr (atom_doc ''Rates'' ''Now at 6.87% again'')) (Inr (JObject [])))
        (str ''rate'') = Some (JString (str ''N/A%''))
   \<and> fetch_mortgage_rate (demo_runtime (Inr (atom_doc ''Rates'' ''Now at 6.87% again'')) (Inr (JObject [])))
        (str ''source'') = Some (JString (str ''Freddie Mac Primary Mortgage Market Survey''))"
proof -
  let ?rt = "demo_runtime (Inr (atom_doc ''Rates'' ''Now at 6.87% again'')) (Inr (JObject []))"
  have q: "fetch_mortgage_rate ?rt =
               [str ''rate'' \<mapsto> JString (str ''N/A%''),
                str ''week'' \<mapsto> JString [],
                str ''source'' \<mapsto> JString (str ''Freddie Mac Primary Mortgage Market Survey''),
                str ''link'' \<mapsto> JString (str ''https://www.freddiemac.com/pmms''),
                str ''change'' \<mapsto> JString []]"
    using primary_without_history_key [OF demo_empty_object] by blast
  show ?thesis using record_fields(2,4) [OF q] demo_empty_object(2) by simp
qed

text \<open>
  An empty \<open>pmms30\<close> list raises \<open>IndexError\<close>, and a document that is not an
  object raises \<open>AttributeError\<close>: both leave the first tier, and the result is that
  of the later tiers.
\<close>

lemma primary_tier_empty_history:
  assumes "urlopen rt (str ''https://www.freddiemac.com/pmms/pmms.json'') 8 = Inr raw"
      and "json_loads rt raw = Inr (JObject kvs)"
      and "map_of kvs (str ''pmms30'') = Some (JArray [])"
  shows "primary_tier rt = Inl IndexError"
    and "fetch_mortgage_rate rt =
           (case secondary_tier rt of Some r \<Rightarrow> r | None \<Rightarrow> tertiary_tier rt)"
  using assms
  by (simp_all add: fetch_mortgage_rate_def primary_tier_def and_then_def dict_get_def
      index_last_def)

lemma primary_tier_not_object:
  assumes "urlopen rt (str ''https://www.freddiemac.com/pmms/pmms.json'') 8 = Inr raw"
      and "json_loads rt raw = Inr (JArray xs)"
  shows "primary_tier rt = Inl AttributeError"
  using assms by (simp add: primary_tier_def and_then_def dict_get_def)

text \<open>The second tier reads the rate out of the first article of the feed.\<close>

lemma demo_secondary_rate:
  "fetch_mortgage_rate (demo_runtime (Inr (atom_doc ''Rates'' ''Now at 6.87% again'')) (Inl URLError))
     (str ''rate'') = Some (JString (str ''6.87%''))"
  by (simp add: str_simps fetch_mortgage_rate_def primary_tier_def secondary_tier_def and_then_def
      demo_runtime_def fetch_rss_def fetch_rss_try_def parse_feed_def rss_pass_def atom_pass_def
      findall_desc_def atom_doc_def atom_tag_def atom_item_def getat_def get_def find_child_def
      Let_def clean_desc_def strip_def isspace_def match_rate_at_def)

section \<open>The mortgage bucket of the digest\<close>

text \<open>
  What holds of the bucket: each construction feed contributes the result of
  \<open>filter_articles\<close> with the cap 2, so at most two of its articles, and the bucket is
  the first three of what has accumulated.
\<close>

lemma mortgage_news_bounds:
  "length (filter_articles rt items MORTGAGE_KEYWORDS 2) \<le> 2"
  "set (filter_articles rt items MORTGAGE_KEYWORDS 2) \<subseteq> set items"
  "length (mortgage_news (gather_news rt)) \<le> 3"
  "mortgage_news (gather_news rt) = take 3
     (concat (map (\<lambda>fd. filter_articles rt (set_source fd (fetch_rss rt (url fd) 10))
                            MORTGAGE_KEYWORDS 2) RSS_FEEDS_construction_news))"
proof -
  show "length (filter_articles rt items MORTGAGE_KEYWORDS 2) \<le> 2"
    by (simp add: filter_articles_eq slice_to_def)
  have "set (take 2 (filter (matches rt MORTGAGE_KEYWORDS) items @
               filter (\<lambda>a. \<not> matches rt MORTGAGE_KEYWORDS a) items))
          \<subseteq> set (filter (matches rt MORTGAGE_KEYWORDS) items @
               filter (\<lambda>a. \<not> matches rt MORTGAGE_KEYWORDS a) items)"
    by (rule set_take_subset)
  also have "\<dots> = set items" by (rule set_partition_eq)
  finally have "set (take 2 (filter (matches rt MORTGAGE_KEYWORDS) items @
               filter (\<lambda>a. \<not> matches rt MORTGAGE_KEYWORDS a) items)) \<subseteq> set items" .
  then show "set (filter_articles rt items MORTGAGE_KEYWORDS 2) \<subseteq> set items"
    by (simp add: filter_articles_eq slice_to_def)
  show "mortgage_news (gather_news rt) = take 3
     (concat (map (\<lambda>fd. filter_articles rt (set_source fd (fetch_rss rt (url fd) 10))
                            MORTGAGE_KEYWORDS 2) RSS_FEEDS_construction_news))"
    by (simp add: gather_news_eq)
  then show "length (mortgage_news (gather_news rt)) \<le> 3" by simp
qed

lemma bridge_no_mortgage_keyword:
  "\<not> matches (demo_runtime f r) MORTGAGE_KEYWORDS
       ((mk_article ''Bridge opens'' ''1 < 2'')\<lparr>source := s\<rparr>)"
  by (simp add: matches_def any_keyword_def article_text_def demo_runtime_def ascii_lower_def
      MORTGAGE_KEYWORDS_def mk_article_def str_simps sublist_code prefix_code)

lemma bridge_mined:
  "filter_articles (demo_runtime f r)
      [(mk_article ''Bridge opens'' ''1 < 2'')\<lparr>source := s\<rparr>] MORTGAGE_KEYWORDS 2
   = [(mk_article ''Bridge opens'' ''1 < 2'')\<lparr>source := s\<rparr>]"
  by (simp add: filter_articles_eq slice_to_def bridge_no_mortgage_keyword)

text \<open>
  Claim C6 at a concrete input. Every construction feed returns one article, "Bridge
  opens", which contains no mortgage keyword. The bucket \<open>mortgage_news\<close> then holds
  that article three times, once for each feed.
\<close>

theorem mortgage_bucket_takes_unrelated:
  "mortgage_news (gather_news (demo_runtime (Inr (rss_doc ''Bridge opens'' ''1 < 2'')) (Inl URLError)))
     = [(mk_article ''Bridge opens'' ''1 < 2'')\<lparr>source := Some (str ''Construction Dive'')\<rparr>,
        (mk_article ''Bridge opens'' ''1 < 2'')\<lparr>source := Some (str ''Builder Online'')\<rparr>,
        (mk_article ''Bridge opens'' ''1 < 2'')\<lparr>source := Some (str ''NAHB Now'')\<rparr>]
   \<and> \<not> matches (demo_runtime (Inr (rss_doc ''Bridge opens'' ''1 < 2'')) (Inl URLError))
         MORTGAGE_KEYWORDS
         ((mk_article ''Bridge opens'' ''1 < 2'')\<lparr>source := Some (str ''Construction Dive'')\<rparr>)"
proof -
  let ?rt = "demo_runtime (Inr (rss_doc ''Bridge opens'' ''1 < 2'')) (Inl URLError)"
  have "mortgage_news (gather_news ?rt)
     = [(mk_article ''Bridge opens'' ''1 < 2'')\<lparr>source := Some (str ''Construction Dive'')\<rparr>,
        (mk_article ''Bridge opens'' ''1 < 2'')\<lparr>source := Some (str ''Builder Online'')\<rparr>,
        (mk_article ''Bridge opens'' ''1 < 2'')\<lparr>source := Some (str ''NAHB Now'')\<rparr>]"
    by (simp add: gather_news_eq RSS_FEEDS_construction_news_def fetch_rss_demo_bridge
        set_source_def bridge_mined)
  then show ?thesis using bridge_no_mortgage_keyword by simp
qed

end
